theory Spec2Isabelle
  imports Complex_Main
begin

section \<open>JavaScript values used by oauth-cache.js\<close>

text \<open>
  Numbers are the results of \<^verbatim>\<open>Date.getTime()\<close>, \<^verbatim>\<open>expires_in\<close> and the
  arithmetic on them. They are modelled as exact reals together with \<^verbatim>\<open>NaN\<close>
  (what arithmetic on \<^verbatim>\<open>undefined\<close> gives); rounding of IEEE doubles and the
  infinities are not modelled.
\<close>

datatype jsnum = JNum real | JNaN

fun to_num :: "jsnum option \<Rightarrow> jsnum" where
  "to_num None = JNaN"
| "to_num (Some n) = n"

fun js_sub :: "jsnum \<Rightarrow> jsnum \<Rightarrow> jsnum" where
  "js_sub (JNum a) (JNum b) = JNum (a - b)"
| "js_sub _ _ = JNaN"

fun js_mul :: "jsnum \<Rightarrow> jsnum \<Rightarrow> jsnum" where
  "js_mul (JNum a) (JNum b) = JNum (a * b)"
| "js_mul _ _ = JNaN"

fun js_div :: "jsnum \<Rightarrow> jsnum \<Rightarrow> jsnum" where
  "js_div (JNum a) (JNum b) = (if b = 0 then JNaN else JNum (a / b))"
| "js_div _ _ = JNaN"

text \<open>\<^verbatim>\<open>Math.min\<close>: \<^verbatim>\<open>NaN\<close> as soon as one argument is \<^verbatim>\<open>NaN\<close>.\<close>

fun Math_min :: "jsnum \<Rightarrow> jsnum \<Rightarrow> jsnum" where
  "Math_min (JNum a) (JNum b) = JNum (min a b)"
| "Math_min _ _ = JNaN"

fun truthy_num :: "jsnum option \<Rightarrow> bool" where
  "truthy_num (Some (JNum r)) = (r \<noteq> 0)"
| "truthy_num _ = False"

fun truthy_str :: "string option \<Rightarrow> bool" where
  "truthy_str (Some s) = (s \<noteq> [])"
| "truthy_str None = False"

datatype atom = ANull | ABool bool | AStr string | ANumber jsnum

text \<open>
  A token record: the OAuth response fields the code reads or writes, each of them
  optional (a JavaScript property may be absent), and the remaining provider-defined
  properties as an association list.
\<close>

record token =
  access_token :: "string option"
  expires_in :: "jsnum option"
  scope :: "string option"
  cached_at :: "jsnum option"
  attributes :: "(string \<times> atom) list"

datatype jsval =
    JUndefined
  | JNull
  | JBool bool
  | JNumber jsnum
  | JStr string
  | JObj token

fun truthy :: "jsval \<Rightarrow> bool" where
  "truthy JUndefined = False"
| "truthy JNull = False"
| "truthy (JBool b) = b"
| "truthy (JNumber n) = truthy_num (Some n)"
| "truthy (JStr s) = (s \<noteq> [])"
| "truthy (JObj t) = True"

text \<open>
  Errors: \<^verbatim>\<open>Error\<close> objects with a message and an optional \<^verbatim>\<open>errorCode\<close>
  property, and the \<^verbatim>\<open>TypeError\<close> the runtime raises when a property of
  \<^verbatim>\<open>undefined\<close> or \<^verbatim>\<open>null\<close> is read, or when a property of a primitive is
  assigned in strict mode (the file starts with \<^verbatim>\<open>'use strict'\<close>).
\<close>

datatype error =
    Error (message: string) (errorCode: "string option")
  | TypeError
  | SyntaxError

text \<open>\<^verbatim>\<open>function errorWithCode(code)\<close>, lines 263-267.\<close>

definition errorWithCode :: "string \<Rightarrow> error" where
  "errorWithCode code = Error code (Some code)"

text \<open>
  The object \<^verbatim>\<open>Url.parse\<close> of Node's \<^verbatim>\<open>url\<close> module returns: its properties are
  \<^verbatim>\<open>protocol, slashes, auth, host, port, hostname, hash, search, query, pathname,
  path, href\<close> and no other.
\<close>

record url_object =
  protocol :: "string option"
  slashes :: "bool option"
  auth :: "string option"
  host :: "string option"
  port :: "string option"
  hostname :: "string option"
  hash :: "string option"
  search :: "string option"
  query :: "string option"
  pathname :: "string option"
  path :: "string option"
  href :: "string option"

definition str_atom :: "string option \<Rightarrow> atom" where
  "str_atom v = (case v of None \<Rightarrow> ANull | Some s \<Rightarrow> AStr s)"

definition bool_atom :: "bool option \<Rightarrow> atom" where
  "bool_atom v = (case v of None \<Rightarrow> ANull | Some b \<Rightarrow> ABool b)"

text \<open>
  The URL object seen through the property reads of \<^verbatim>\<open>cacheToken\<close>: it has none of
  \<^verbatim>\<open>access_token\<close>, \<^verbatim>\<open>expires_in\<close>, \<^verbatim>\<open>scope\<close>, \<^verbatim>\<open>cached_at\<close>; its own twelve
  properties are kept as attributes.
\<close>

definition url_as_token :: "url_object \<Rightarrow> token" where
  "url_as_token u =
     \<lparr> access_token = None, expires_in = None, scope = None, cached_at = None,
       attributes =
         [(''protocol'', str_atom (protocol u)), (''slashes'', bool_atom (slashes u)),
          (''auth'', str_atom (auth u)), (''host'', str_atom (host u)),
          (''port'', str_atom (port u)), (''hostname'', str_atom (hostname u)),
          (''hash'', str_atom (hash u)), (''search'', str_atom (search u)),
          (''query'', str_atom (query u)), (''pathname'', str_atom (pathname u)),
          (''path'', str_atom (path u)), (''href'', str_atom (href u))] \<rparr>"

text \<open>\<^verbatim>\<open>String.prototype.split\<close> with a one-character separator: empty pieces are kept.\<close>

fun split_on :: "char \<Rightarrow> string \<Rightarrow> string list" where
  "split_on c [] = [[]]"
| "split_on c (x # xs) =
     (if x = c then [] # split_on c xs
      else (case split_on c xs of
              [] \<Rightarrow> [[x]]
            | w # ws \<Rightarrow> (x # w) # ws))"

text \<open>\<^verbatim>\<open>_.difference(a, b)\<close> of underscore: the members of a that are not in b.\<close>

definition difference :: "'a list \<Rightarrow> 'a list \<Rightarrow> 'a list" where
  "difference a b = filter (\<lambda>x. x \<notin> set b) a"

section \<open>The collaborators: store, target, callbacks\<close>

text \<open>
  The third argument of \<^verbatim>\<open>cache.set\<close>: not passed at all (\<^verbatim>\<open>cacheApiKey\<close>),
  \<^verbatim>\<open>null\<close>, or \<^verbatim>\<open>{ ttl: n }\<close>.
\<close>

datatype set_opts = NoOpts | OptsNull | Ttl jsnum

text \<open>The \<^verbatim>\<open>requiredScopes\<close> argument: absent, an array, or a string.\<close>

datatype scopes = NoScopes | ScopeArr "string list" | ScopeStr string

text \<open>The options of \<^verbatim>\<open>invalidateToken\<close> (comment at lines 180-186).\<close>

record inv_options =
  clientId :: string
  clientSecret :: string
  token :: jsval
  tokenTypeHint :: "string option"

text \<open>
  Modelled from the spec: the expiring key-value store (the repository's cache modules
  are not among the sources). It supports \<^verbatim>\<open>set(key, value, options?)\<close>, which may
  throw, \<^verbatim>\<open>get(key, callback(error, value|absent))\<close> and \<^verbatim>\<open>delete(key)\<close>, and
  exposes \<^verbatim>\<open>options.ttl\<close>. The entries are those not yet evicted: eviction is the
  store's own business and is not modelled. A key is what the code passes, which is
  \<^verbatim>\<open>undefined\<close> (None) for a token object without \<^verbatim>\<open>access_token\<close>.
\<close>

record store =
  entries :: "string option \<rightharpoonup> (string \<times> set_opts)"
  options_ttl :: "jsnum option"
  get_error :: "error option"
  set_error :: "error option"

text \<open>
  What one call does is observed as the sequence of its calls to the store, to the
  target and to the completion callback.
\<close>

datatype event =
    StoreSet "string option" string set_opts
  | StoreGet "string option"
  | StoreDelete "string option"
  | TargetVerifyToken string scopes
  | TargetInvalidateToken inv_options
  | TargetVerifyApiKey string string
  | Callback "error option" jsval

record state =
  cache :: store
  trace :: "event list"

text \<open>
  An outcome is the exception that left the code, if any, and the state reached.
  A callback is a continuation; one that raises hands its exception to its caller.
\<close>

type_synonym outcome = "error option \<times> state"
type_synonym callback = "error option \<Rightarrow> jsval \<Rightarrow> state \<Rightarrow> outcome"

definition emit :: "event \<Rightarrow> state \<Rightarrow> state" where
  "emit e s = s\<lparr>trace := trace s @ [e]\<rparr>"

text \<open>The caller's completion callback: its invocation is recorded, and it returns.\<close>

definition completion :: callback where
  "completion err res s = (None, emit (Callback err res) s)"

text \<open>
  The runtime and the target: \<^verbatim>\<open>JSON.stringify\<close>, \<^verbatim>\<open>JSON.parse\<close>, \<^verbatim>\<open>Url.parse\<close>,
  the clock \<^verbatim>\<open>new Date().getTime()\<close>, and the answers the target gives to its
  callbacks, as (error, result).
\<close>

record env =
  JSON_stringify :: "token \<Rightarrow> string"
  JSON_parse :: "string \<Rightarrow> error + jsval"
  Url_parse :: "string \<Rightarrow> error + url_object"
  now :: real
  target_verifyToken :: "string \<Rightarrow> scopes \<Rightarrow> error option \<times> jsval"
  target_invalidateToken :: "inv_options \<Rightarrow> error option \<times> jsval"
  target_verifyApiKey :: "string \<Rightarrow> string \<Rightarrow> error option"

text \<open>
  Modelled from the spec: the three operations of the store. A call is recorded; a
  \<^verbatim>\<open>set\<close> that throws leaves the entries as they were; \<^verbatim>\<open>get\<close> answers its
  callback with the error, or with the value stored under the key, or with nothing.
\<close>

definition cache_set :: "string option \<Rightarrow> string \<Rightarrow> set_opts \<Rightarrow> state \<Rightarrow> outcome" where
  "cache_set key v opts s =
     (let s1 = emit (StoreSet key v opts) s in
      case set_error (cache s1) of
        Some e \<Rightarrow> (Some e, s1)
      | None \<Rightarrow>
          (None, s1\<lparr>cache := (cache s1)\<lparr>entries := (entries (cache s1))(key \<mapsto> (v, opts))\<rparr>\<rparr>))"

definition cache_get ::
  "string option \<Rightarrow> (error option \<Rightarrow> string option \<Rightarrow> state \<Rightarrow> outcome) \<Rightarrow> state \<Rightarrow> outcome"
where
  "cache_get key cb s =
     (let s1 = emit (StoreGet key) s in
      case get_error (cache s1) of
        Some e \<Rightarrow> cb (Some e) None s1
      | None \<Rightarrow> cb None (map_option fst (entries (cache s1) key)) s1)"

definition cache_delete :: "string option \<Rightarrow> state \<Rightarrow> outcome" where
  "cache_delete key s =
     (let s1 = emit (StoreDelete key) s in
      (None, s1\<lparr>cache := (cache s1)\<lparr>entries := (entries (cache s1))(key := None)\<rparr>\<rparr>))"

section \<open>The decorator\<close>

subsection \<open>cacheToken, lines 24-47\<close>

text \<open>Lines 28-30: a string token is replaced by what \<^verbatim>\<open>Url.parse\<close> returns.\<close>

definition parse_if_string :: "env \<Rightarrow> jsval \<Rightarrow> error + jsval" where
  "parse_if_string rt tok =
     (case tok of
        JStr str \<Rightarrow>
          (case Url_parse rt str of
             Inl e \<Rightarrow> Inl e
           | Inr u \<Rightarrow> Inr (JObj (url_as_token u)))
      | _ \<Rightarrow> Inr tok)"

text \<open>
  The read \<^verbatim>\<open>token.access_token\<close>: a \<^verbatim>\<open>TypeError\<close> on \<^verbatim>\<open>undefined\<close> and
  \<^verbatim>\<open>null\<close>, \<^verbatim>\<open>undefined\<close> on the other primitives.
\<close>

fun prop_access_token :: "jsval \<Rightarrow> error + string option" where
  "prop_access_token JUndefined = Inl TypeError"
| "prop_access_token JNull = Inl TypeError"
| "prop_access_token (JObj t) = Inr (access_token t)"
| "prop_access_token _ = Inr None"

text \<open>Lines 36-40: the options of the write.\<close>

definition ttl_opts :: "store \<Rightarrow> token \<Rightarrow> set_opts" where
  "ttl_opts c t =
     (if truthy_num (expires_in t)
      then Ttl (Math_min (js_mul (to_num (expires_in t)) (JNum 1000)) (to_num (options_ttl c)))
      else OptsNull)"

text \<open>
  The body of the \<^verbatim>\<open>try\<close> block. The result handed to the callback is the argument
  itself; for an object that is the very object stamped with \<^verbatim>\<open>cached_at\<close> at
  line 33. Past line 31 the token is an object, nothing else having a truthy
  \<^verbatim>\<open>access_token\<close>; the last case is there for totality and is never taken.
\<close>

definition cacheToken_try :: "env \<Rightarrow> error option \<Rightarrow> jsval \<Rightarrow> callback \<Rightarrow> state \<Rightarrow> outcome" where
  "cacheToken_try rt err tok cb s =
     (case err of
        Some e \<Rightarrow> cb (Some e) JUndefined s
      | None \<Rightarrow>
          (case parse_if_string rt tok of
             Inl e \<Rightarrow> (Some e, s)
           | Inr parsed \<Rightarrow>
               (case prop_access_token parsed of
                  Inl e \<Rightarrow> (Some e, s)
                | Inr a \<Rightarrow>
                    if \<not> truthy_str a then cb None tok s
                    else
                      (case parsed of
                         JObj t \<Rightarrow>
                           (let stamped = t\<lparr>cached_at := Some (JNum (now rt))\<rparr>;
                                result = (case tok of JStr str \<Rightarrow> tok | _ \<Rightarrow> JObj stamped)
                            in case cache_set a (JSON_stringify rt stamped) (ttl_opts (cache s) stamped) s of
                                 (Some e, s1) \<Rightarrow> (Some e, s1)
                               | (None, s1) \<Rightarrow> cb None result s1)
                       | _ \<Rightarrow> cb None tok s))))"

text \<open>The \<^verbatim>\<open>catch\<close> clause, lines 43-46: whatever the block raised goes to the callback.\<close>

definition cacheToken :: "env \<Rightarrow> error option \<Rightarrow> jsval \<Rightarrow> callback \<Rightarrow> state \<Rightarrow> outcome" where
  "cacheToken rt err tok cb s =
     (case cacheToken_try rt err tok cb s of
        (Some e, s1) \<Rightarrow> cb (Some e) JUndefined s1
      | (None, s1) \<Rightarrow> (None, s1))"

subsection \<open>getCachedToken and deleteCachedToken, lines 49-80\<close>

text \<open>\<^verbatim>\<open>(_.isString(token)) ? token : token.access_token\<close>\<close>

definition key_of :: "jsval \<Rightarrow> error + string option" where
  "key_of tok = (case tok of JStr str \<Rightarrow> Inr (Some str) | _ \<Rightarrow> prop_access_token tok)"

text \<open>
  Lines 67-73, run on the value of the variable \<^verbatim>\<open>token\<close> after the \<^verbatim>\<open>try\<close>
  statement. Reading \<^verbatim>\<open>cached_at\<close> of \<^verbatim>\<open>undefined\<close> or \<^verbatim>\<open>null\<close> raises; so
  does the assignment to \<^verbatim>\<open>expires_in\<close> of a primitive.
\<close>

fun update_expires_in :: "env \<Rightarrow> jsval \<Rightarrow> callback \<Rightarrow> state \<Rightarrow> outcome" where
  "update_expires_in rt (JObj t) cb s =
     (let elapsed = js_sub (JNum (now rt)) (to_num (cached_at t))
      in cb None
           (JObj (t\<lparr>expires_in := Some (js_sub (to_num (expires_in t)) (js_div elapsed (JNum 1000))),
                   cached_at := None\<rparr>)) s)"
| "update_expires_in rt _ cb s = (Some TypeError, s)"

text \<open>The callback given to \<^verbatim>\<open>cache.get\<close>, lines 51-74.\<close>

definition getCachedToken_reply ::
  "env \<Rightarrow> callback \<Rightarrow> error option \<Rightarrow> string option \<Rightarrow> state \<Rightarrow> outcome"
where
  "getCachedToken_reply rt cb err reply s =
     (case err of
        Some e \<Rightarrow> cb (Some e) JUndefined s
      | None \<Rightarrow>
          (case reply of
             None \<Rightarrow> cb None JUndefined s
           | Some r \<Rightarrow>
               if r = [] then cb None (JStr r) s
               else
                 (case JSON_parse rt r of
                    Inr v \<Rightarrow> update_expires_in rt v cb s
                  | Inl e \<Rightarrow>
                      (case cb (Some e) JNull s of
                         (Some x, s1) \<Rightarrow> (Some x, s1)
                       | (None, s1) \<Rightarrow> update_expires_in rt JUndefined cb s1))))"

definition getCachedToken :: "env \<Rightarrow> jsval \<Rightarrow> callback \<Rightarrow> state \<Rightarrow> outcome" where
  "getCachedToken rt tok cb s =
     (case key_of tok of
        Inl e \<Rightarrow> (Some e, s)
      | Inr key \<Rightarrow> cache_get key (getCachedToken_reply rt cb) s)"

definition deleteCachedToken :: "jsval \<Rightarrow> state \<Rightarrow> outcome" where
  "deleteCachedToken tok s =
     (case key_of tok of
        Inl e \<Rightarrow> (Some e, s)
      | Inr key \<Rightarrow> cache_delete key s)"

subsection \<open>invalidateToken, lines 187-190\<close>

definition invalidateToken :: "env \<Rightarrow> inv_options \<Rightarrow> callback \<Rightarrow> state \<Rightarrow> outcome" where
  "invalidateToken rt options cb s =
     (case deleteCachedToken (token options) s of
        (Some e, s1) \<Rightarrow> (Some e, s1)
      | (None, s1) \<Rightarrow>
          (case target_invalidateToken rt options of
             (err, res) \<Rightarrow> cb err res (emit (TargetInvalidateToken options) s1)))"

subsection \<open>verifyToken, lines 195-217\<close>

definition truthy_scopes :: "scopes \<Rightarrow> bool" where
  "truthy_scopes rs = (case rs of NoScopes \<Rightarrow> False | ScopeArr xs \<Rightarrow> True | ScopeStr str \<Rightarrow> str \<noteq> [])"

text \<open>Lines 200-202.\<close>

definition required_list :: "scopes \<Rightarrow> string list" where
  "required_list rs =
     (case rs of
        ScopeArr xs \<Rightarrow> xs
      | ScopeStr str \<Rightarrow> (if str \<noteq> [] then split_on CHR '' '' str else [])
      | NoScopes \<Rightarrow> [])"

text \<open>Line 203: \<^verbatim>\<open>reply.scope ? reply.scope.split(' ') : []\<close>.\<close>

definition granted_list :: "jsval \<Rightarrow> string list" where
  "granted_list reply =
     (case reply of
        JObj t \<Rightarrow> (if truthy_str (scope t) then split_on CHR '' '' (the (scope t)) else [])
      | _ \<Rightarrow> [])"

text \<open>
  The callback given to the target, lines 210-214. The assignment
  \<^verbatim>\<open>reply.access_token = token\<close> raises when the reply is not an object.
\<close>

definition verifyToken_target ::
  "env \<Rightarrow> string \<Rightarrow> callback \<Rightarrow> error option \<Rightarrow> jsval \<Rightarrow> state \<Rightarrow> outcome"
where
  "verifyToken_target rt tok cb err reply s =
     (case err of
        Some e \<Rightarrow> cb (Some e) JUndefined s
      | None \<Rightarrow>
          (case reply of
             JObj t \<Rightarrow> cacheToken rt None (JObj (t\<lparr>access_token := Some tok\<rparr>)) cb s
           | _ \<Rightarrow> (Some TypeError, s)))"

text \<open>The callback given to \<^verbatim>\<open>getCachedToken\<close>, lines 197-216. Its \<^verbatim>\<open>err\<close> is not read.\<close>

definition verifyToken_cached ::
  "env \<Rightarrow> string \<Rightarrow> scopes \<Rightarrow> callback \<Rightarrow> error option \<Rightarrow> jsval \<Rightarrow> state \<Rightarrow> outcome"
where
  "verifyToken_cached rt tok requiredScopes cb err reply s =
     (if truthy reply then
        (if truthy_scopes requiredScopes
            \<and> difference (required_list requiredScopes) (granted_list reply) \<noteq> []
         then cb (Some (errorWithCode ''invalid_scope'')) JUndefined s
         else cb None reply s)
      else
        (case target_verifyToken rt tok requiredScopes of
           (e, r) \<Rightarrow>
             verifyToken_target rt tok cb e r (emit (TargetVerifyToken tok requiredScopes) s)))"

definition verifyToken :: "env \<Rightarrow> string \<Rightarrow> scopes \<Rightarrow> callback \<Rightarrow> state \<Rightarrow> outcome" where
  "verifyToken rt tok requiredScopes cb s =
     getCachedToken rt (JStr tok) (verifyToken_cached rt tok requiredScopes cb) s"

subsection \<open>cacheApiKey, getCachedApiKey, verifyApiKey, lines 219-261\<close>

definition cacheApiKey :: "string \<Rightarrow> callback \<Rightarrow> state \<Rightarrow> outcome" where
  "cacheApiKey apiKey cb s =
     (case (case cache_set (Some (''apiKey:'' @ apiKey)) apiKey NoOpts s of
              (Some e, s1) \<Rightarrow> (Some e, s1)
            | (None, s1) \<Rightarrow> cb None (JStr apiKey) s1) of
        (Some e, s2) \<Rightarrow> cb (Some e) JUndefined s2
      | (None, s2) \<Rightarrow> (None, s2))"

definition getCachedApiKey :: "string \<Rightarrow> callback \<Rightarrow> state \<Rightarrow> outcome" where
  "getCachedApiKey apiKey cb s =
     cache_get (Some (''apiKey:'' @ apiKey))
       (\<lambda>err reply s1.
          case err of
            Some e \<Rightarrow> cb (Some e) JUndefined s1
          | None \<Rightarrow>
              (if \<not> truthy_str reply then cb None JUndefined s1
               else cb None (JStr apiKey) s1)) s"

definition verifyApiKey :: "env \<Rightarrow> string \<Rightarrow> string \<Rightarrow> callback \<Rightarrow> state \<Rightarrow> outcome" where
  "verifyApiKey rt apiKey request cb s =
     getCachedApiKey apiKey
       (\<lambda>err reply s1.
          if err \<noteq> None \<or> truthy reply then cb err (JBool (truthy reply)) s1
          else
            (case target_verifyApiKey rt apiKey request of
               Some e \<Rightarrow> cb (Some e) JUndefined (emit (TargetVerifyApiKey apiKey request) s1)
             | None \<Rightarrow>
                 cacheApiKey apiKey
                   (\<lambda>err2 reply2 s2.
                      case err2 of
                        Some e \<Rightarrow> cb (Some e) JUndefined s2
                      | None \<Rightarrow> cb None (JBool (truthy reply2)) s2)
                   (emit (TargetVerifyApiKey apiKey request) s1))) s"

section \<open>An example configuration\<close>

text \<open>
  A token, a runtime whose JSON functions know that one token (stamped at time 1000)
  and the text \<^verbatim>\<open>null\<close>, a target that accepts everything, and an empty store
  whose ceiling is 300000 ms. The theorems below are instantiated on them.
\<close>

definition example_token :: token where
  "example_token =
     \<lparr> access_token = Some ''abc'', expires_in = Some (JNum 3600), scope = Some ''read'',
       cached_at = None, attributes = [] \<rparr>"

definition example_json :: string where
  "example_json = ''{access_token:abc,expires_in:3600,scope:read,cached_at:1000}''"

definition example_redirect :: string where
  "example_redirect = ''https://client.example/cb#access_token=abc&expires_in=3600''"

definition example_env :: env where
  "example_env =
     \<lparr> JSON_stringify = (\<lambda>t. if t = example_token\<lparr>cached_at := Some (JNum 1000)\<rparr>
                               then example_json else ''{}''),
       JSON_parse = (\<lambda>str. if str = example_json
                              then Inr (JObj (example_token\<lparr>cached_at := Some (JNum 1000)\<rparr>))
                            else if str = ''null'' then Inr JNull
                            else Inl SyntaxError),
       Url_parse = (\<lambda>str. Inr \<lparr> protocol = Some ''https:'', slashes = Some True, auth = None,
                                host = Some ''client.example'', port = None,
                                hostname = Some ''client.example'',
                                hash = Some ''#access_token=abc&expires_in=3600'',
                                search = None, query = None, pathname = Some ''/cb'',
                                path = Some ''/cb'', href = Some str \<rparr>),
       now = 1000,
       target_verifyToken = (\<lambda>tok rs. (None, JObj (example_token\<lparr>access_token := None\<rparr>))),
       target_invalidateToken = (\<lambda>opts. (None, JUndefined)),
       target_verifyApiKey = (\<lambda>k req. None) \<rparr>"

definition example_store :: store where
  "example_store =
     \<lparr> entries = Map.empty, options_ttl = Some (JNum 300000), get_error = None,
       set_error = None \<rparr>"

definition example_state :: state where
  "example_state = \<lparr> cache = example_store, trace = [] \<rparr>"

text \<open>The same store, out of order: every \<^verbatim>\<open>get\<close> reports an error.\<close>

definition failing_state :: state where
  "failing_state =
     \<lparr> cache = example_store\<lparr>get_error := Some (Error ''store down'' None)\<rparr>, trace = [] \<rparr>"

text \<open>The store holding the example token as \<^verbatim>\<open>cacheToken\<close> writes it at time 1000.\<close>

definition cached_state :: state where
  "cached_state =
     \<lparr> cache = example_store\<lparr>entries := [Some ''abc'' \<mapsto> (example_json, Ttl (JNum 300000))]\<rparr>,
       trace = [] \<rparr>"

definition example_options :: inv_options where
  "example_options =
     \<lparr> clientId = ''client'', clientSecret = ''secret'', token = JStr ''abc'',
       tokenTypeHint = None \<rparr>"

text \<open>
  The store after \<^verbatim>\<open>verifyApiKey\<close> has cached the API keys \<^verbatim>\<open>null\<close> and
  \<^verbatim>\<open>key1\<close> (see \<open>api_keys_state_reached\<close>).
\<close>

definition api_keys_state :: state where
  "api_keys_state =
     \<lparr> cache = example_store\<lparr>entries :=
                 [Some ''apiKey:null'' \<mapsto> (''null'', NoOpts),
                  Some ''apiKey:key1'' \<mapsto> (''key1'', NoOpts)]\<rparr>,
       trace = [] \<rparr>"

section \<open>Auxiliary facts\<close>

lemmas store_defs = cache_set_def cache_get_def cache_delete_def emit_def completion_def

lemmas example_defs = example_token_def example_json_def example_env_def example_store_def
  example_state_def example_redirect_def failing_state_def cached_state_def example_options_def
  api_keys_state_def

lemma cacheToken_object:
  assumes "access_token t = Some k" "k \<noteq> []"
  shows "cacheToken rt None (JObj t) completion s =
     (None, s\<lparr>cache := (case set_error (cache s) of
                  None \<Rightarrow> (cache s)\<lparr>entries := (entries (cache s))
                     (Some k \<mapsto> (JSON_stringify rt (t\<lparr>cached_at := Some (JNum (now rt))\<rparr>),
                                  ttl_opts (cache s) t))\<rparr>
                | Some e \<Rightarrow> cache s),
        trace := trace s @
       [StoreSet (Some k) (JSON_stringify rt (t\<lparr>cached_at := Some (JNum (now rt))\<rparr>))
          (ttl_opts (cache s) t),
        (case set_error (cache s) of
           None \<Rightarrow> Callback None (JObj (t\<lparr>cached_at := Some (JNum (now rt))\<rparr>))
         | Some e \<Rightarrow> Callback (Some e) JUndefined)]\<rparr>)"
  using assms
  by (simp add: cacheToken_def cacheToken_try_def parse_if_string_def store_defs ttl_opts_def
      Let_def split: option.splits)

lemma getCachedToken_hit:
  assumes "get_error (cache s) = None" "entries (cache s) (Some tk) = Some (v, opts)" "v \<noteq> []"
    and "JSON_parse rt v = Inr (JObj t)"
  shows "getCachedToken rt (JStr tk) cb s =
     cb None (JObj (t\<lparr>expires_in := Some (js_sub (to_num (expires_in t))
                        (js_div (js_sub (JNum (now rt)) (to_num (cached_at t))) (JNum 1000))),
                      cached_at := None\<rparr>)) (emit (StoreGet (Some tk)) s)"
  using assms
  by (simp add: getCachedToken_def key_of_def getCachedToken_reply_def cache_get_def emit_def
      Let_def)

lemma verifyToken_miss:
  assumes "entries (cache s) (Some tk) = None"
  shows "verifyToken rt tk rs completion s =
     verifyToken_target rt tk completion (fst (target_verifyToken rt tk rs))
       (snd (target_verifyToken rt tk rs))
       (emit (TargetVerifyToken tk rs) (emit (StoreGet (Some tk)) s))"
  using assms
  by (simp add: verifyToken_def getCachedToken_def key_of_def getCachedToken_reply_def
      cache_get_def emit_def Let_def verifyToken_cached_def split: prod.splits option.splits)

lemma cacheToken_trace:
  "\<exists>rest. trace (snd (cacheToken rt err tok completion s)) = trace s @ rest"
  by (auto simp: cacheToken_def cacheToken_try_def store_defs Let_def
      split: option.splits sum.splits jsval.splits prod.splits)

lemma verifyToken_target_trace:
  "\<exists>rest. trace (snd (verifyToken_target rt tk completion e r s)) = trace s @ rest"
  using cacheToken_trace
  by (auto simp: verifyToken_target_def completion_def emit_def split: option.splits jsval.splits)

lemma verifyToken_target_example:
  "verifyToken_target example_env ''abc'' completion None
     (JObj (example_token\<lparr>access_token := None\<rparr>)) s =
   cacheToken example_env None (JObj example_token) completion s"
  by (simp add: verifyToken_target_def example_token_def)

lemmas verifyApiKey_defs = verifyApiKey_def getCachedApiKey_def cacheApiKey_def store_defs

lemma verifyApiKey_store_error:
  assumes "get_error (cache s) = Some e"
  shows "verifyApiKey rt k req completion s =
     (None, s\<lparr>trace := trace s @
        [StoreGet (Some (''apiKey:'' @ k)), Callback (Some e) (JBool False)]\<rparr>)"
  using assms by (simp add: verifyApiKey_defs Let_def)

lemma verifyApiKey_hit:
  assumes "get_error (cache s) = None"
    and "entries (cache s) (Some (''apiKey:'' @ k)) = Some (v, opts)" "v \<noteq> []" "k \<noteq> []"
  shows "verifyApiKey rt k req completion s =
     (None, s\<lparr>trace := trace s @
        [StoreGet (Some (''apiKey:'' @ k)), Callback None (JBool True)]\<rparr>)"
  using assms by (simp add: verifyApiKey_defs Let_def)

lemma verifyApiKey_miss_rejected:
  assumes "get_error (cache s) = None" "entries (cache s) (Some (''apiKey:'' @ k)) = None"
    and "target_verifyApiKey rt k req = Some e"
  shows "verifyApiKey rt k req completion s =
     (None, s\<lparr>trace := trace s @
        [StoreGet (Some (''apiKey:'' @ k)), TargetVerifyApiKey k req,
         Callback (Some e) JUndefined]\<rparr>)"
  using assms by (simp add: verifyApiKey_defs Let_def)

lemma verifyApiKey_miss_accepted:
  assumes "get_error (cache s) = None" "entries (cache s) (Some (''apiKey:'' @ k)) = None"
    and "target_verifyApiKey rt k req = None" "set_error (cache s) = None"
  shows "verifyApiKey rt k req completion s =
     (None, s\<lparr>cache := (cache s)\<lparr>entries := (entries (cache s))
                           (Some (''apiKey:'' @ k) \<mapsto> (k, NoOpts))\<rparr>,
              trace := trace s @
        [StoreGet (Some (''apiKey:'' @ k)), TargetVerifyApiKey k req,
         StoreSet (Some (''apiKey:'' @ k)) k NoOpts, Callback None (JBool (k \<noteq> []))]\<rparr>)"
  using assms by (simp add: verifyApiKey_defs Let_def)

lemma api_keys_state_reached:
  "cache (snd (verifyApiKey example_env ''key1'' ''req'' completion
                 (snd (verifyApiKey example_env ''null'' ''req'' completion example_state)))) =
   cache api_keys_state"
proof -
  have a: "get_error (cache example_state) = None"
    "entries (cache example_state) (Some (''apiKey:'' @ ''null'')) = None"
    "target_verifyApiKey example_env ''null'' ''req'' = None"
    "set_error (cache example_state) = None"
    by (simp_all add: example_defs)
  show ?thesis
    unfolding verifyApiKey_miss_accepted [OF a]
    by (simp add: verifyApiKey_defs Let_def example_defs)
qed

section \<open>The claims\<close>

text \<open>
  C1. A token cached with \<^verbatim>\<open>expires_in = T\<close> at time t0 (milliseconds) and read
  back by \<^verbatim>\<open>getCachedToken\<close> at time t1, while the entry is still in the store, is
  returned with \<^verbatim>\<open>expires_in = T - (t1 - t0) / 1000\<close> and without \<^verbatim>\<open>cached_at\<close>;
  its other properties are those cached. The store works, and \<^verbatim>\<open>JSON.parse\<close>
  gives back the record \<^verbatim>\<open>JSON.stringify\<close> was given. Arithmetic is exact here.
\<close>

theorem getCachedToken_residual_lifetime:
  assumes "access_token t = Some k" "k \<noteq> []" "expires_in t = Some (JNum T)"
    and "set_error (cache s) = None" "get_error (cache s) = None"
    and "JSON_stringify rt (t\<lparr>cached_at := Some (JNum t0)\<rparr>) \<noteq> []"
    and "JSON_parse rt (JSON_stringify rt (t\<lparr>cached_at := Some (JNum t0)\<rparr>)) =
           Inr (JObj (t\<lparr>cached_at := Some (JNum t0)\<rparr>))"
  shows "getCachedToken (rt\<lparr>now := t1\<rparr>) (JStr k) completion
           (snd (cacheToken (rt\<lparr>now := t0\<rparr>) None (JObj t) completion s)) =
         (None,
          emit (Callback None
                  (JObj (t\<lparr>expires_in := Some (JNum (T - (t1 - t0) / 1000)), cached_at := None\<rparr>)))
            (emit (StoreGet (Some k))
               (snd (cacheToken (rt\<lparr>now := t0\<rparr>) None (JObj t) completion s))))"
  using assms
  by (simp add: cacheToken_object store_defs getCachedToken_def key_of_def
      getCachedToken_reply_def Let_def)

theorem getCachedToken_residual_lifetime_witness:
  "trace (snd (getCachedToken (example_env\<lparr>now := 6000\<rparr>) (JStr ''abc'') completion
           (snd (cacheToken (example_env\<lparr>now := 1000\<rparr>) None (JObj example_token)
                   completion example_state)))) =
   [StoreSet (Some ''abc'') example_json (Ttl (JNum 300000)),
    Callback None (JObj (example_token\<lparr>cached_at := Some (JNum 1000)\<rparr>)),
    StoreGet (Some ''abc''),
    Callback None (JObj (example_token\<lparr>expires_in := Some (JNum 3595)\<rparr>))]"
proof -
  have a: "access_token example_token = Some ''abc''" "''abc'' \<noteq> []"
    "expires_in example_token = Some (JNum 3600)"
    by (simp_all add: example_token_def)
  have b: "set_error (cache example_state) = None" "get_error (cache example_state) = None"
    by (simp_all add: example_state_def example_store_def)
  have c: "JSON_stringify example_env (example_token\<lparr>cached_at := Some (JNum 1000)\<rparr>) \<noteq> []"
    "JSON_parse example_env
       (JSON_stringify example_env (example_token\<lparr>cached_at := Some (JNum 1000)\<rparr>)) =
     Inr (JObj (example_token\<lparr>cached_at := Some (JNum 1000)\<rparr>))"
    by (simp_all add: example_env_def example_json_def)
  have d: "(3600::real) - (6000 - 1000) / 1000 = 3595" by simp
  show ?thesis
    using getCachedToken_residual_lifetime [OF a b c, of 6000]
    unfolding cacheToken_object [OF a(1,2)]
    by (simp add: d emit_def example_defs ttl_opts_def)
qed

text \<open>
  C3, as the claim states it, fails for a token that carries \<^verbatim>\<open>expires_in = 0\<close>:
  the guard \<^verbatim>\<open>if (token.expires_in)\<close> at line 37 takes zero for absent, and the
  entry is written with \<^verbatim>\<open>null\<close> options, not with a TTL of
  \<^verbatim>\<open>min(0 * 1000, 300000)\<close>.
\<close>

theorem cacheToken_ttl_counterexample:
  "expires_in (example_token\<lparr>expires_in := Some (JNum 0)\<rparr>) = Some (JNum 0)
   \<and> options_ttl (cache example_state) = Some (JNum 300000)
   \<and> trace (snd (cacheToken example_env None
                    (JObj (example_token\<lparr>expires_in := Some (JNum 0)\<rparr>)) completion example_state)) =
       [StoreSet (Some ''abc'') ''{}'' OptsNull,
        Callback None (JObj (example_token\<lparr>expires_in := Some (JNum 0),
                                            cached_at := Some (JNum 1000)\<rparr>))]
   \<and> OptsNull \<noteq> Ttl (JNum (min (0 * 1000) 300000))"
  by (simp add: cacheToken_def cacheToken_try_def parse_if_string_def store_defs ttl_opts_def
      Let_def example_defs)

text \<open>
  C3, amended. A token with an \<^verbatim>\<open>access_token\<close> is written by one \<^verbatim>\<open>set\<close> under
  that key. When \<^verbatim>\<open>expires_in\<close> is a number T other than zero and the store's
  \<^verbatim>\<open>options.ttl\<close> is C, the options are \<^verbatim>\<open>{ ttl: min(T * 1000, C) }\<close>; when
  \<^verbatim>\<open>expires_in\<close> is absent the options are \<^verbatim>\<open>null\<close>. Nothing is said of a token
  whose \<^verbatim>\<open>expires_in\<close> is zero.
\<close>

theorem cacheToken_ttl:
  assumes "access_token t = Some k" "k \<noteq> []"
  shows "(expires_in t = Some (JNum T) \<and> T \<noteq> 0 \<and> options_ttl (cache s) = Some (JNum C) \<longrightarrow>
            trace (snd (cacheToken rt None (JObj t) completion s)) =
              trace s @
                [StoreSet (Some k) (JSON_stringify rt (t\<lparr>cached_at := Some (JNum (now rt))\<rparr>))
                   (Ttl (JNum (min (T * 1000) C))),
                 (case set_error (cache s) of
                    None \<Rightarrow> Callback None (JObj (t\<lparr>cached_at := Some (JNum (now rt))\<rparr>))
                  | Some e \<Rightarrow> Callback (Some e) JUndefined)])
       \<and> (expires_in t = None \<longrightarrow>
            trace (snd (cacheToken rt None (JObj t) completion s)) =
              trace s @
                [StoreSet (Some k) (JSON_stringify rt (t\<lparr>cached_at := Some (JNum (now rt))\<rparr>))
                   OptsNull,
                 (case set_error (cache s) of
                    None \<Rightarrow> Callback None (JObj (t\<lparr>cached_at := Some (JNum (now rt))\<rparr>))
                  | Some e \<Rightarrow> Callback (Some e) JUndefined)])"
  using assms by (simp add: cacheToken_object ttl_opts_def)

theorem cacheToken_ttl_witness:
  "trace (snd (cacheToken example_env None
                 (JObj (example_token\<lparr>expires_in := Some (JNum 7200)\<rparr>)) completion example_state)) =
     [StoreSet (Some ''abc'') ''{}'' (Ttl (JNum 300000)),
      Callback None (JObj (example_token\<lparr>expires_in := Some (JNum 7200),
                                          cached_at := Some (JNum 1000)\<rparr>))]
   \<and> trace (snd (cacheToken example_env None
                 (JObj (example_token\<lparr>expires_in := Some (JNum 20)\<rparr>)) completion example_state)) =
     [StoreSet (Some ''abc'') ''{}'' (Ttl (JNum 20000)),
      Callback None (JObj (example_token\<lparr>expires_in := Some (JNum 20),
                                          cached_at := Some (JNum 1000)\<rparr>))]
   \<and> trace (snd (cacheToken example_env None
                 (JObj (example_token\<lparr>expires_in := None\<rparr>)) completion example_state)) =
     [StoreSet (Some ''abc'') ''{}'' OptsNull,
      Callback None (JObj (example_token\<lparr>expires_in := None,
                                          cached_at := Some (JNum 1000)\<rparr>))]"
proof -
  have a: "access_token (example_token\<lparr>expires_in := x\<rparr>) = Some ''abc''" for x
    by (simp add: example_defs)
  have b: "''abc'' \<noteq> []" by simp
  have c: "expires_in (example_token\<lparr>expires_in := Some (JNum T)\<rparr>) = Some (JNum T)
           \<and> T \<noteq> 0 \<and> options_ttl (cache example_state) = Some (JNum 300000)"
    if "T \<noteq> 0" for T
    using that by (simp add: example_defs)
  have d: "expires_in (example_token\<lparr>expires_in := None\<rparr>) = None" by simp
  have e: "(7200::real) \<noteq> 0" "(20::real) \<noteq> 0" by simp_all
  note t = cacheToken_ttl [where rt = example_env and s = example_state, OF a b]
  note 1 = t [THEN conjunct1, rule_format, OF c [OF e(1)]]
  note 2 = t [THEN conjunct1, rule_format, OF c [OF e(2)]]
  note 3 = t [THEN conjunct2, rule_format, OF d]
  show ?thesis
    unfolding 1 2 3 by (simp add: example_defs)
qed

text \<open>
  C6. The claim is that a string token carrying an \<^verbatim>\<open>access_token\<close> is recognised and
  cached under it. The code hands the string to \<^verbatim>\<open>Url.parse\<close>, whose result has no
  \<^verbatim>\<open>access_token\<close> property: for every string and every \<^verbatim>\<open>Url.parse\<close> the call
  makes no store write and hands the string back (or the parse error).
\<close>

theorem cacheToken_string_never_stored:
  "cacheToken rt None (JStr str) completion s =
     (None,
      emit (case Url_parse rt str of
              Inl e \<Rightarrow> Callback (Some e) JUndefined
            | Inr u \<Rightarrow> Callback None (JStr str)) s)"
  by (simp add: cacheToken_def cacheToken_try_def completion_def parse_if_string_def
      url_as_token_def split: sum.splits)

theorem cacheToken_string_never_stored_witness:
  "cacheToken example_env None (JStr example_redirect) completion example_state =
     (None, \<lparr> cache = example_store, trace = [Callback None (JStr example_redirect)] \<rparr>)"
  using cacheToken_string_never_stored [of example_env example_redirect example_state]
  by (simp add: example_env_def example_state_def emit_def)

text \<open>
  C8. A successful result whose parsed token has no (or an empty) \<^verbatim>\<open>access_token\<close>
  goes to the callback as it came, and that is all the call does: no \<^verbatim>\<open>set\<close>, the
  store unchanged.
\<close>

theorem cacheToken_without_access_token:
  assumes "parse_if_string rt tok = Inr parsed" "prop_access_token parsed = Inr a"
    and "\<not> truthy_str a"
  shows "cacheToken rt None tok completion s = (None, emit (Callback None tok) s)
       \<and> cache (snd (cacheToken rt None tok completion s)) = cache s
       \<and> trace (snd (cacheToken rt None tok completion s)) = trace s @ [Callback None tok]"
  using assms by (simp add: cacheToken_def cacheToken_try_def completion_def emit_def)

theorem cacheToken_without_access_token_witness:
  "cacheToken example_env None (JObj (example_token\<lparr>access_token := None\<rparr>)) completion
     example_state =
     (None, \<lparr> cache = example_store,
              trace = [Callback None (JObj (example_token\<lparr>access_token := None\<rparr>))] \<rparr>)"
proof -
  have a: "parse_if_string example_env (JObj (example_token\<lparr>access_token := None\<rparr>)) =
             Inr (JObj (example_token\<lparr>access_token := None\<rparr>))"
    by (simp add: parse_if_string_def)
  have b: "prop_access_token (JObj (example_token\<lparr>access_token := None\<rparr>)) = Inr None"
    by simp
  have c: "\<not> truthy_str None" by simp
  show ?thesis
    using cacheToken_without_access_token [OF a b c, of example_state]
    by (simp add: example_state_def emit_def)
qed

text \<open>
  C10. \<^verbatim>\<open>cacheApiKey\<close> calls \<^verbatim>\<open>set\<close> once, with the key \<^verbatim>\<open>'apiKey:' + apiKey\<close>, the
  API key as the value and no third argument; the entry it leaves carries no TTL
  option. The callback then gets the key, or the error \<^verbatim>\<open>set\<close> raised.
\<close>

theorem cacheApiKey_set_without_ttl:
  "cacheApiKey apiKey completion s =
     (None,
      s\<lparr>cache := (case set_error (cache s) of
                     None \<Rightarrow> (cache s)\<lparr>entries := (entries (cache s))
                                (Some (''apiKey:'' @ apiKey) \<mapsto> (apiKey, NoOpts))\<rparr>
                   | Some e \<Rightarrow> cache s),
        trace := trace s @
          [StoreSet (Some (''apiKey:'' @ apiKey)) apiKey NoOpts,
           (case set_error (cache s) of
              None \<Rightarrow> Callback None (JStr apiKey)
            | Some e \<Rightarrow> Callback (Some e) JUndefined)]\<rparr>)"
  by (simp add: cacheApiKey_def store_defs split: option.splits)

theorem cacheApiKey_set_without_ttl_witness:
  "trace (snd (cacheApiKey ''key1'' completion example_state)) =
     [StoreSet (Some ''apiKey:key1'') ''key1'' NoOpts, Callback None (JStr ''key1'')]
   \<and> entries (cache (snd (cacheApiKey ''key1'' completion example_state))) (Some ''apiKey:key1'') =
       Some (''key1'', NoOpts)"
  using cacheApiKey_set_without_ttl [of "''key1''" example_state]
  by (simp add: example_state_def example_store_def)

text \<open>
  C2. When \<^verbatim>\<open>verifyToken\<close> hits a cached token and some required scope (of the
  array, or of the split of the string) is not among the granted ones (the split of
  the record's \<^verbatim>\<open>scope\<close>, none if it is absent), the callback gets the error made by
  \<^verbatim>\<open>errorWithCode('invalid_scope')\<close>, whose \<^verbatim>\<open>errorCode\<close> is \<^verbatim>\<open>invalid_scope\<close>,
  and the call does nothing else after the store's \<^verbatim>\<open>get\<close>: the target is not called.
\<close>

theorem verifyToken_invalid_scope:
  assumes "get_error (cache s) = None" "entries (cache s) (Some tk) = Some (v, opts)" "v \<noteq> []"
    and "JSON_parse rt v = Inr (JObj t)"
    and "r \<in> set (required_list rs)" "r \<notin> set (granted_list (JObj t))"
  shows "verifyToken rt tk rs completion s =
           (None, s\<lparr>trace := trace s @
              [StoreGet (Some tk), Callback (Some (errorWithCode ''invalid_scope'')) JUndefined]\<rparr>)
         \<and> errorCode (errorWithCode ''invalid_scope'') = Some ''invalid_scope''"
proof -
  have ts: "truthy_scopes rs"
    using assms(5)
    by (auto simp: required_list_def truthy_scopes_def split: scopes.splits if_splits)
  have "r \<in> set (difference (required_list rs) (granted_list (JObj t)))"
    using assms(5,6) by (simp add: difference_def)
  then have d: "difference (required_list rs) (granted_list (JObj t)) \<noteq> []"
    by auto
  have g: "granted_list (JObj (t\<lparr>expires_in := x, cached_at := y\<rparr>)) = granted_list (JObj t)"
    for x y
    by (simp add: granted_list_def)
  show ?thesis
    unfolding verifyToken_def getCachedToken_hit [OF assms(1-4)]
    using ts d by (simp add: verifyToken_cached_def g completion_def emit_def errorWithCode_def)
qed

theorem verifyToken_invalid_scope_witness:
  "verifyToken example_env ''abc'' (ScopeArr [''read'', ''write'']) completion cached_state =
     (None, cached_state\<lparr>trace :=
        [StoreGet (Some ''abc''),
         Callback (Some (Error ''invalid_scope'' (Some ''invalid_scope''))) JUndefined]\<rparr>)
   \<and> verifyToken example_env ''abc'' (ScopeStr ''read write'') completion cached_state =
     (None, cached_state\<lparr>trace :=
        [StoreGet (Some ''abc''),
         Callback (Some (Error ''invalid_scope'' (Some ''invalid_scope''))) JUndefined]\<rparr>)"
proof -
  have a: "get_error (cache cached_state) = None"
    "entries (cache cached_state) (Some ''abc'') = Some (example_json, Ttl (JNum 300000))"
    "example_json \<noteq> []"
    "JSON_parse example_env example_json =
       Inr (JObj (example_token\<lparr>cached_at := Some (JNum 1000)\<rparr>))"
    by (simp_all add: example_defs)
  have b: "''write'' \<in> set (required_list (ScopeArr [''read'', ''write'']))"
    "''write'' \<in> set (required_list (ScopeStr ''read write''))"
    by (simp_all add: required_list_def)
  have c: "''write'' \<notin> set (granted_list (JObj (example_token\<lparr>cached_at := Some (JNum 1000)\<rparr>)))"
    by (simp add: granted_list_def example_token_def)
  show ?thesis
    using verifyToken_invalid_scope [OF a b(1) c] verifyToken_invalid_scope [OF a b(2) c]
    by (simp add: errorWithCode_def cached_state_def)
qed

text \<open>
  C4. The claim is that every operation invokes its callback exactly once. When the
  value the store returns parses to \<^verbatim>\<open>null\<close>, \<^verbatim>\<open>getCachedToken\<close> raises a
  \<^verbatim>\<open>TypeError\<close> at line 68 without having invoked the callback at all. When the
  value does not parse, the callback gets the parse error, and the code, which does
  not return from the \<^verbatim>\<open>catch\<close> clause, runs on to line 68 and raises a
  \<^verbatim>\<open>TypeError\<close> there; it never reaches the second invocation at line 73.
\<close>

theorem getCachedToken_raises_after_hit:
  assumes "get_error (cache s) = None" "entries (cache s) (Some tk) = Some (v, opts)" "v \<noteq> []"
  shows "(JSON_parse rt v = Inr JNull \<longrightarrow>
            getCachedToken rt (JStr tk) completion s = (Some TypeError, emit (StoreGet (Some tk)) s))
       \<and> (JSON_parse rt v = Inl e \<longrightarrow>
            getCachedToken rt (JStr tk) completion s =
              (Some TypeError, emit (Callback (Some e) JNull) (emit (StoreGet (Some tk)) s)))"
  using assms
  by (simp add: getCachedToken_def key_of_def getCachedToken_reply_def cache_get_def emit_def
      Let_def completion_def)

theorem getCachedToken_raises_after_hit_witness:
  "getCachedToken example_env (JStr ''apiKey:null'') completion api_keys_state =
     (Some TypeError, api_keys_state\<lparr>trace := [StoreGet (Some ''apiKey:null'')]\<rparr>)
   \<and> getCachedToken example_env (JStr ''apiKey:key1'') completion api_keys_state =
     (Some TypeError,
      api_keys_state\<lparr>trace := [StoreGet (Some ''apiKey:key1''), Callback (Some SyntaxError) JNull]\<rparr>)
   \<and> verifyToken example_env ''apiKey:null'' NoScopes completion api_keys_state =
     (Some TypeError, api_keys_state\<lparr>trace := [StoreGet (Some ''apiKey:null'')]\<rparr>)"
proof -
  have a: "get_error (cache api_keys_state) = None" "''null'' \<noteq> []" "''key1'' \<noteq> []"
    "entries (cache api_keys_state) (Some ''apiKey:null'') = Some (''null'', NoOpts)"
    "entries (cache api_keys_state) (Some ''apiKey:key1'') = Some (''key1'', NoOpts)"
    by (simp_all add: example_defs)
  have b: "JSON_parse example_env ''null'' = Inr JNull"
    "JSON_parse example_env ''key1'' = Inl SyntaxError"
    by (simp_all add: example_defs)
  have c: "getCachedToken example_env (JStr ''apiKey:null'') cb api_keys_state =
             (Some TypeError, api_keys_state\<lparr>trace := [StoreGet (Some ''apiKey:null'')]\<rparr>)" for cb
    using a(1,4) b(1)
    by (simp add: getCachedToken_def key_of_def getCachedToken_reply_def cache_get_def emit_def
        Let_def api_keys_state_def)
  show ?thesis
    using getCachedToken_raises_after_hit [OF a(1,4,2), of example_env SyntaxError]
      getCachedToken_raises_after_hit [OF a(1,5,3), of example_env SyntaxError] b
    by (simp add: emit_def api_keys_state_def verifyToken_def c [unfolded api_keys_state_def])
qed

text \<open>
  C5. The claim is that a store error reaches the caller of \<^verbatim>\<open>verifyToken\<close> and does
  not cause delegation. The callback at lines 197-216 reads only \<^verbatim>\<open>reply\<close>: when the
  store's \<^verbatim>\<open>get\<close> reports an error, the call is the call to the target followed by
  what the target's answer leads to, exactly as on a miss; the store error is dropped.
\<close>

theorem verifyToken_store_error_delegates:
  assumes "get_error (cache s) = Some e"
  shows "verifyToken rt tk rs completion s =
     verifyToken_target rt tk completion (fst (target_verifyToken rt tk rs))
       (snd (target_verifyToken rt tk rs))
       (emit (TargetVerifyToken tk rs) (emit (StoreGet (Some tk)) s))"
  using assms
  by (simp add: verifyToken_def getCachedToken_def key_of_def getCachedToken_reply_def
      cache_get_def emit_def Let_def verifyToken_cached_def split: prod.splits)

theorem verifyToken_store_error_delegates_witness:
  "trace (snd (verifyToken example_env ''abc'' NoScopes completion failing_state)) =
     [StoreGet (Some ''abc''), TargetVerifyToken ''abc'' NoScopes,
      StoreSet (Some ''abc'') example_json (Ttl (JNum 300000)),
      Callback None (JObj (example_token\<lparr>cached_at := Some (JNum 1000)\<rparr>))]"
proof -
  have a: "get_error (cache failing_state) = Some (Error ''store down'' None)"
    by (simp add: example_defs)
  have b: "target_verifyToken example_env ''abc'' NoScopes =
             (None, JObj (example_token\<lparr>access_token := None\<rparr>))"
    by (simp add: example_env_def)
  have c: "access_token example_token = Some ''abc''" "''abc'' \<noteq> []"
    by (simp_all add: example_token_def)
  show ?thesis
    using verifyToken_store_error_delegates [OF a, of example_env "''abc''" NoScopes]
    unfolding b fst_conv snd_conv verifyToken_target_example cacheToken_object [OF c]
    by (simp add: emit_def example_defs ttl_opts_def)
qed

text \<open>
  C7, as the claim states it, fails: a \<^verbatim>\<open>verifyToken\<close> issued after
  \<^verbatim>\<open>invalidateToken\<close> has returned can hit the cache. Nothing keeps the entry out
  once it is deleted. A verification on which the target still answers with the token
  writes it back at line 213, and so does the answer to a verification that was under
  way at the target when the entry was deleted, arriving afterwards; the next
  \<^verbatim>\<open>verifyToken\<close> then ends with a store read and the cached token, the target not
  being called.
\<close>

theorem invalidateToken_later_hit_counterexample:
  "trace (snd (verifyToken example_env ''abc'' NoScopes completion
          (snd (verifyToken example_env ''abc'' NoScopes completion
             (snd (invalidateToken example_env example_options completion cached_state)))))) =
     [StoreDelete (Some ''abc''), TargetInvalidateToken example_options, Callback None JUndefined,
      StoreGet (Some ''abc''), TargetVerifyToken ''abc'' NoScopes,
      StoreSet (Some ''abc'') example_json (Ttl (JNum 300000)),
      Callback None (JObj (example_token\<lparr>cached_at := Some (JNum 1000)\<rparr>)),
      StoreGet (Some ''abc''), Callback None (JObj example_token)]
   \<and> trace (snd (verifyToken example_env ''abc'' NoScopes completion
          (snd (verifyToken_target example_env ''abc'' completion None
                  (JObj (example_token\<lparr>access_token := None\<rparr>))
             (snd (invalidateToken example_env example_options completion cached_state)))))) =
     [StoreDelete (Some ''abc''), TargetInvalidateToken example_options, Callback None JUndefined,
      StoreSet (Some ''abc'') example_json (Ttl (JNum 300000)),
      Callback None (JObj (example_token\<lparr>cached_at := Some (JNum 1000)\<rparr>)),
      StoreGet (Some ''abc''), Callback None (JObj example_token)]"
proof -
  let ?s1 = "cached_state\<lparr>cache := (cache cached_state)\<lparr>entries :=
                (entries (cache cached_state))(Some ''abc'' := None)\<rparr>,
              trace := [StoreDelete (Some ''abc''), TargetInvalidateToken example_options,
                        Callback None JUndefined]\<rparr>"
  have inv: "invalidateToken example_env example_options completion cached_state = (None, ?s1)"
    by (simp add: invalidateToken_def deleteCachedToken_def key_of_def store_defs Let_def
        example_options_def example_env_def cached_state_def)
  have b: "target_verifyToken example_env ''abc'' NoScopes =
             (None, JObj (example_token\<lparr>access_token := None\<rparr>))"
    by (simp add: example_env_def)
  have c: "access_token example_token = Some ''abc''" "''abc'' \<noteq> []"
    by (simp_all add: example_token_def)
  have m: "entries (cache ?s1) (Some ''abc'') = None" by simp
  have v1: "verifyToken example_env ''abc'' NoScopes completion ?s1 =
     cacheToken example_env None (JObj example_token) completion
       (emit (TargetVerifyToken ''abc'' NoScopes) (emit (StoreGet (Some ''abc'')) ?s1))"
    unfolding verifyToken_miss [OF m] b fst_conv snd_conv verifyToken_target_example ..
  have hit: "verifyToken example_env ''abc'' NoScopes completion s =
     (None, s\<lparr>trace := trace s @ [StoreGet (Some ''abc''), Callback None (JObj example_token)]\<rparr>)"
    if "get_error (cache s) = None"
      "entries (cache s) (Some ''abc'') = Some (example_json, Ttl (JNum 300000))" for s
  proof -
    have p: "JSON_parse example_env example_json =
               Inr (JObj (example_token\<lparr>cached_at := Some (JNum 1000)\<rparr>))"
      "example_json \<noteq> []" "now example_env = 1000"
      by (simp_all add: example_env_def example_json_def)
    show ?thesis
      unfolding verifyToken_def getCachedToken_hit [OF that p(2,1)] p(3)
      by (simp add: verifyToken_cached_def truthy_scopes_def completion_def emit_def
          example_token_def)
  qed
  let ?s2 = "snd (cacheToken example_env None (JObj example_token) completion
       (emit (TargetVerifyToken ''abc'' NoScopes) (emit (StoreGet (Some ''abc'')) ?s1)))"
  let ?s3 = "snd (cacheToken example_env None (JObj example_token) completion ?s1)"
  have s2: "get_error (cache ?s2) = None"
    "entries (cache ?s2) (Some ''abc'') = Some (example_json, Ttl (JNum 300000))"
    "trace ?s2 =
       [StoreDelete (Some ''abc''), TargetInvalidateToken example_options, Callback None JUndefined,
        StoreGet (Some ''abc''), TargetVerifyToken ''abc'' NoScopes,
        StoreSet (Some ''abc'') example_json (Ttl (JNum 300000)),
        Callback None (JObj (example_token\<lparr>cached_at := Some (JNum 1000)\<rparr>))]"
    unfolding cacheToken_object [OF c]
    by (simp_all add: emit_def example_defs ttl_opts_def)
  have s3: "get_error (cache ?s3) = None"
    "entries (cache ?s3) (Some ''abc'') = Some (example_json, Ttl (JNum 300000))"
    "trace ?s3 =
       [StoreDelete (Some ''abc''), TargetInvalidateToken example_options, Callback None JUndefined,
        StoreSet (Some ''abc'') example_json (Ttl (JNum 300000)),
        Callback None (JObj (example_token\<lparr>cached_at := Some (JNum 1000)\<rparr>))]"
    unfolding cacheToken_object [OF c]
    by (simp_all add: emit_def example_defs ttl_opts_def)
  show ?thesis
    unfolding inv snd_conv v1 verifyToken_target_example hit [OF s2(1,2)] hit [OF s3(1,2)]
    by (simp add: s2(3) s3(3))
qed

text \<open>
  C7, amended. \<^verbatim>\<open>invalidateToken\<close> deletes the entry of \<^verbatim>\<open>options.token\<close> (a string,
  or an object with that \<^verbatim>\<open>access_token\<close>), then calls the target, then hands the
  target's error and result to the callback as they are. A \<^verbatim>\<open>verifyToken\<close> of the
  same token run on the store as \<^verbatim>\<open>invalidateToken\<close> leaves it, nothing having
  written to the store in between, whatever the clock and the target then are, reads
  the store and goes on to the target: it has no cache hit.
\<close>

theorem invalidateToken_deletes_first:
  assumes "key_of (token options) = Inr (Some tk)"
  shows "invalidateToken rt options completion s =
           (None, s\<lparr>cache := (cache s)\<lparr>entries := (entries (cache s))(Some tk := None)\<rparr>,
                    trace := trace s @
                      [StoreDelete (Some tk), TargetInvalidateToken options,
                       Callback (fst (target_invalidateToken rt options))
                                (snd (target_invalidateToken rt options))]\<rparr>)
       \<and> (\<exists>rest. trace (snd (verifyToken rt' tk rs completion
                                 (snd (invalidateToken rt options completion s)))) =
                    trace (snd (invalidateToken rt options completion s)) @
                      StoreGet (Some tk) # TargetVerifyToken tk rs # rest)"
proof -
  let ?s1 = "s\<lparr>cache := (cache s)\<lparr>entries := (entries (cache s))(Some tk := None)\<rparr>,
                    trace := trace s @
                      [StoreDelete (Some tk), TargetInvalidateToken options,
                       Callback (fst (target_invalidateToken rt options))
                                (snd (target_invalidateToken rt options))]\<rparr>"
  have inv: "invalidateToken rt options completion s = (None, ?s1)"
    using assms
    by (simp add: invalidateToken_def deleteCachedToken_def store_defs Let_def split: prod.splits)
  have miss: "entries (cache ?s1) (Some tk) = None" by simp
  obtain rest where
    "trace (snd (verifyToken rt' tk rs completion ?s1)) =
       trace (emit (TargetVerifyToken tk rs) (emit (StoreGet (Some tk)) ?s1)) @ rest"
    unfolding verifyToken_miss [OF miss] using verifyToken_target_trace by blast
  then have "trace (snd (verifyToken rt' tk rs completion ?s1)) =
       trace ?s1 @ StoreGet (Some tk) # TargetVerifyToken tk rs # rest"
    by (simp add: emit_def)
  then show ?thesis unfolding inv by auto
qed

theorem invalidateToken_deletes_first_witness:
  "trace (snd (verifyToken example_env ''abc'' NoScopes completion
                 (snd (invalidateToken example_env example_options completion cached_state)))) =
     [StoreDelete (Some ''abc''), TargetInvalidateToken example_options, Callback None JUndefined,
      StoreGet (Some ''abc''), TargetVerifyToken ''abc'' NoScopes,
      StoreSet (Some ''abc'') example_json (Ttl (JNum 300000)),
      Callback None (JObj (example_token\<lparr>cached_at := Some (JNum 1000)\<rparr>))]
   \<and> entries (cache (snd (invalidateToken example_env example_options completion cached_state)))
       (Some ''abc'') = None"
proof -
  have a: "key_of (token example_options) = Inr (Some ''abc'')"
    by (simp add: key_of_def example_options_def)
  have b: "target_verifyToken example_env ''abc'' NoScopes =
             (None, JObj (example_token\<lparr>access_token := None\<rparr>))"
    by (simp add: example_env_def)
  have c: "access_token example_token = Some ''abc''" "''abc'' \<noteq> []"
    by (simp_all add: example_token_def)
  have d: "invalidateToken example_env example_options completion cached_state =
     (None, cached_state\<lparr>cache := (cache cached_state)\<lparr>entries :=
                (entries (cache cached_state))(Some ''abc'' := None)\<rparr>,
              trace := [StoreDelete (Some ''abc''), TargetInvalidateToken example_options,
                        Callback None JUndefined]\<rparr>)"
    using invalidateToken_deletes_first [OF a, of example_env cached_state example_env NoScopes]
    by (simp add: example_env_def cached_state_def)
  let ?s1 = "cached_state\<lparr>cache := (cache cached_state)\<lparr>entries :=
                (entries (cache cached_state))(Some ''abc'' := None)\<rparr>,
              trace := [StoreDelete (Some ''abc''), TargetInvalidateToken example_options,
                        Callback None JUndefined]\<rparr>"
  have m: "entries (cache ?s1) (Some ''abc'') = None" by simp
  have e: "verifyToken example_env ''abc'' NoScopes completion ?s1 =
     cacheToken example_env None (JObj example_token) completion
       (emit (TargetVerifyToken ''abc'' NoScopes) (emit (StoreGet (Some ''abc'')) ?s1))"
    unfolding verifyToken_miss [OF m] b fst_conv snd_conv verifyToken_target_example ..
  show ?thesis
    unfolding d snd_conv e cacheToken_object [OF c]
    by (simp add: emit_def example_defs ttl_opts_def)
qed

text \<open>
  C9, as the claim states it, fails for the empty API key: the target having accepted
  it, \<^verbatim>\<open>cacheApiKey\<close> hands \<^verbatim>\<open>''\<close> to the callback at line 255 and \<^verbatim>\<open>!!reply\<close> is
  \<^verbatim>\<open>false\<close>, so the caller gets \<^verbatim>\<open>(null, false)\<close>; the stored value is falsy too, so
  the next call is a miss again and calls the target a second time.
\<close>

theorem verifyApiKey_empty_key_counterexample:
  "trace (snd (verifyApiKey example_env [] ''req'' completion example_state)) =
     [StoreGet (Some ''apiKey:''), TargetVerifyApiKey [] ''req'',
      StoreSet (Some ''apiKey:'') [] NoOpts, Callback None (JBool False)]
   \<and> trace (snd (verifyApiKey example_env [] ''req'' completion
        (snd (verifyApiKey example_env [] ''req'' completion example_state)))) =
     [StoreGet (Some ''apiKey:''), TargetVerifyApiKey [] ''req'',
      StoreSet (Some ''apiKey:'') [] NoOpts, Callback None (JBool False),
      StoreGet (Some ''apiKey:''), TargetVerifyApiKey [] ''req'',
      StoreSet (Some ''apiKey:'') [] NoOpts, Callback None (JBool False)]"
  by (simp add: verifyApiKey_defs Let_def example_defs)

text \<open>
  C9, amended to a non-empty API key. With key \<^verbatim>\<open>'apiKey:' + apiKey\<close>: on a store
  error the callback gets \<^verbatim>\<open>(error, false)\<close> and on a hit \<^verbatim>\<open>(null, true)\<close>, the
  target not being called and the store left as it was; on a miss the target is called
  with the API key and the request, its error goes to the callback, and on its success
  the key is written (without options) before the callback gets \<^verbatim>\<open>(null, true)\<close>.
  Any later call on the store so reached, and by the hit case on any store that still
  holds the entry, answers \<^verbatim>\<open>(null, true)\<close> without calling the target.
\<close>

theorem verifyApiKey_cache_aside:
  assumes "k \<noteq> []"
  shows "(get_error (cache s) = Some e \<longrightarrow>
            verifyApiKey rt k req completion s =
              (None, s\<lparr>trace := trace s @
                 [StoreGet (Some (''apiKey:'' @ k)), Callback (Some e) (JBool False)]\<rparr>))
       \<and> (get_error (cache s) = None \<and> entries (cache s) (Some (''apiKey:'' @ k)) = Some (v, opts)
            \<and> v \<noteq> [] \<longrightarrow>
            verifyApiKey rt k req completion s =
              (None, s\<lparr>trace := trace s @
                 [StoreGet (Some (''apiKey:'' @ k)), Callback None (JBool True)]\<rparr>))
       \<and> (get_error (cache s) = None \<and> entries (cache s) (Some (''apiKey:'' @ k)) = None
            \<and> target_verifyApiKey rt k req = Some e' \<longrightarrow>
            verifyApiKey rt k req completion s =
              (None, s\<lparr>trace := trace s @
                 [StoreGet (Some (''apiKey:'' @ k)), TargetVerifyApiKey k req,
                  Callback (Some e') JUndefined]\<rparr>))
       \<and> (get_error (cache s) = None \<and> entries (cache s) (Some (''apiKey:'' @ k)) = None
            \<and> target_verifyApiKey rt k req = None \<and> set_error (cache s) = None \<longrightarrow>
            verifyApiKey rt k req completion s =
              (None, s\<lparr>cache := (cache s)\<lparr>entries := (entries (cache s))
                                    (Some (''apiKey:'' @ k) \<mapsto> (k, NoOpts))\<rparr>,
                       trace := trace s @
                 [StoreGet (Some (''apiKey:'' @ k)), TargetVerifyApiKey k req,
                  StoreSet (Some (''apiKey:'' @ k)) k NoOpts, Callback None (JBool True)]\<rparr>)
            \<and> verifyApiKey rt' k req' completion (snd (verifyApiKey rt k req completion s)) =
              (None, (snd (verifyApiKey rt k req completion s))\<lparr>trace :=
                 trace (snd (verifyApiKey rt k req completion s)) @
                 [StoreGet (Some (''apiKey:'' @ k)), Callback None (JBool True)]\<rparr>))"
proof (intro conjI impI)
  assume "get_error (cache s) = Some e"
  then show "verifyApiKey rt k req completion s =
      (None, s\<lparr>trace := trace s @
         [StoreGet (Some (''apiKey:'' @ k)), Callback (Some e) (JBool False)]\<rparr>)"
    by (rule verifyApiKey_store_error)
next
  assume "get_error (cache s) = None \<and> entries (cache s) (Some (''apiKey:'' @ k)) = Some (v, opts)
            \<and> v \<noteq> []"
  then show "verifyApiKey rt k req completion s =
      (None, s\<lparr>trace := trace s @ [StoreGet (Some (''apiKey:'' @ k)), Callback None (JBool True)]\<rparr>)"
    using assms by (simp add: verifyApiKey_hit)
next
  assume "get_error (cache s) = None \<and> entries (cache s) (Some (''apiKey:'' @ k)) = None
            \<and> target_verifyApiKey rt k req = Some e'"
  then show "verifyApiKey rt k req completion s =
      (None, s\<lparr>trace := trace s @
         [StoreGet (Some (''apiKey:'' @ k)), TargetVerifyApiKey k req,
          Callback (Some e') JUndefined]\<rparr>)"
    by (simp add: verifyApiKey_miss_rejected)
next
  assume h: "get_error (cache s) = None \<and> entries (cache s) (Some (''apiKey:'' @ k)) = None
            \<and> target_verifyApiKey rt k req = None \<and> set_error (cache s) = None"
  then show first: "verifyApiKey rt k req completion s =
      (None, s\<lparr>cache := (cache s)\<lparr>entries := (entries (cache s))
                            (Some (''apiKey:'' @ k) \<mapsto> (k, NoOpts))\<rparr>,
               trace := trace s @
         [StoreGet (Some (''apiKey:'' @ k)), TargetVerifyApiKey k req,
          StoreSet (Some (''apiKey:'' @ k)) k NoOpts, Callback None (JBool True)]\<rparr>)"
    using assms by (simp add: verifyApiKey_miss_accepted)
  show "verifyApiKey rt' k req' completion (snd (verifyApiKey rt k req completion s)) =
      (None, (snd (verifyApiKey rt k req completion s))\<lparr>trace :=
         trace (snd (verifyApiKey rt k req completion s)) @
         [StoreGet (Some (''apiKey:'' @ k)), Callback None (JBool True)]\<rparr>)"
    unfolding first snd_conv
    by (rule verifyApiKey_hit) (use h assms in simp_all)
qed

theorem verifyApiKey_cache_aside_witness:
  "verifyApiKey example_env ''key1'' ''req'' completion failing_state =
     (None, failing_state\<lparr>trace :=
        [StoreGet (Some ''apiKey:key1''), Callback (Some (Error ''store down'' None)) (JBool False)]\<rparr>)
   \<and> verifyApiKey example_env ''key1'' ''req'' completion api_keys_state =
     (None, api_keys_state\<lparr>trace :=
        [StoreGet (Some ''apiKey:key1''), Callback None (JBool True)]\<rparr>)
   \<and> verifyApiKey (example_env\<lparr>target_verifyApiKey := \<lambda>k req. Some (Error ''unknown key'' None)\<rparr>)
       ''key1'' ''req'' completion example_state =
     (None, example_state\<lparr>trace :=
        [StoreGet (Some ''apiKey:key1''), TargetVerifyApiKey ''key1'' ''req'',
         Callback (Some (Error ''unknown key'' None)) JUndefined]\<rparr>)
   \<and> trace (snd (verifyApiKey example_env ''key1'' ''other request'' completion
        (snd (verifyApiKey example_env ''key1'' ''req'' completion example_state)))) =
     [StoreGet (Some ''apiKey:key1''), TargetVerifyApiKey ''key1'' ''req'',
      StoreSet (Some ''apiKey:key1'') ''key1'' NoOpts, Callback None (JBool True),
      StoreGet (Some ''apiKey:key1''), Callback None (JBool True)]"
proof -
  have k: "''key1'' \<noteq> []" by simp
  have a: "get_error (cache failing_state) = Some (Error ''store down'' None)"
    by (simp add: example_defs)
  have b: "get_error (cache api_keys_state) = None
           \<and> entries (cache api_keys_state) (Some (''apiKey:'' @ ''key1'')) = Some (''key1'', NoOpts)
           \<and> ''key1'' \<noteq> []"
    by (simp add: example_defs)
  have c: "get_error (cache example_state) = None
           \<and> entries (cache example_state) (Some (''apiKey:'' @ ''key1'')) = None
           \<and> target_verifyApiKey
               (example_env\<lparr>target_verifyApiKey := \<lambda>k req. Some (Error ''unknown key'' None)\<rparr>)
               ''key1'' ''req'' = Some (Error ''unknown key'' None)"
    by (simp add: example_defs)
  have d: "get_error (cache example_state) = None
           \<and> entries (cache example_state) (Some (''apiKey:'' @ ''key1'')) = None
           \<and> target_verifyApiKey example_env ''key1'' ''req'' = None
           \<and> set_error (cache example_state) = None"
    by (simp add: example_defs)
  note t = verifyApiKey_cache_aside [OF k]
  have 1: "verifyApiKey example_env ''key1'' ''req'' completion failing_state =
     (None, failing_state\<lparr>trace := trace failing_state @
        [StoreGet (Some (''apiKey:'' @ ''key1'')),
         Callback (Some (Error ''store down'' None)) (JBool False)]\<rparr>)"
    using t [THEN conjunct1, rule_format, OF a] .
  have 2: "verifyApiKey example_env ''key1'' ''req'' completion api_keys_state =
     (None, api_keys_state\<lparr>trace := trace api_keys_state @
        [StoreGet (Some (''apiKey:'' @ ''key1'')), Callback None (JBool True)]\<rparr>)"
    using t [THEN conjunct2, THEN conjunct1, rule_format, OF b] .
  have 3: "verifyApiKey
       (example_env\<lparr>target_verifyApiKey := \<lambda>k req. Some (Error ''unknown key'' None)\<rparr>)
       ''key1'' ''req'' completion example_state =
     (None, example_state\<lparr>trace := trace example_state @
        [StoreGet (Some (''apiKey:'' @ ''key1'')), TargetVerifyApiKey ''key1'' ''req'',
         Callback (Some (Error ''unknown key'' None)) JUndefined]\<rparr>)"
    using t [THEN conjunct2, THEN conjunct2, THEN conjunct1, rule_format, OF c] .
  note 4 = t [THEN conjunct2, THEN conjunct2, THEN conjunct2, rule_format, OF d,
      of example_env "''other request''"]
  have 5: "trace (snd (verifyApiKey example_env ''key1'' ''other request'' completion
        (snd (verifyApiKey example_env ''key1'' ''req'' completion example_state)))) =
     trace example_state @
     [StoreGet (Some (''apiKey:'' @ ''key1'')), TargetVerifyApiKey ''key1'' ''req'',
      StoreSet (Some (''apiKey:'' @ ''key1'')) ''key1'' NoOpts, Callback None (JBool True)] @
     [StoreGet (Some (''apiKey:'' @ ''key1'')), Callback None (JBool True)]"
    unfolding 4 [THEN conjunct2] unfolding 4 [THEN conjunct1] by simp
  show ?thesis
    unfolding 1 2 3 5
    by (simp add: failing_state_def api_keys_state_def example_state_def)
qed

end
